theory Spec2Isabelle
  imports Main "HOL-Library.Word"
begin

unbundle bit_operations_syntax

section \<open>Data model\<close>

text \<open>
  The passive DNS logger of \<^verbatim>\<open>main.go\<close>. The program is built on gopacket: the decoded
  packet, its layers and the parsed DNS message are library types. They are modelled here
  with the fields \<^verbatim>\<open>main.go\<close> reads. Library functions the program calls
  (\<^verbatim>\<open>net.IP.String\<close>, \<^verbatim>\<open>DNSResponseCode.String\<close>, \<^verbatim>\<open>gopacket.NewPacket\<close>,
  the clock) are parameters of the functions that call them. The flow hash
  \<^verbatim>\<open>Flow.FastHash\<close> is modelled from its description in the specification.

  A Go \<^verbatim>\<open>string\<close> and a \<^verbatim>\<open>[]byte\<close> that is only ever converted to a string are both
  sequences of octets, as a HOL \<^typ>\<open>string\<close> is, so \<^verbatim>\<open>string(b)\<close> is the identity.
  Raw packet payloads are lists of 8-bit words. A nil slice is the empty list.
\<close>

type_synonym byte = "8 word"
type_synonym IP = "byte list"
type_synonym DNSType = "16 word"
type_synonym DNSOpCode = "8 word"
type_synonym DNSResponseCode = "8 word"

text \<open>\<^verbatim>\<open>time.Time\<close> and \<^verbatim>\<open>time.Duration\<close> in nanoseconds; \<^verbatim>\<open>t.Add(d)\<close> is \<open>t + d\<close> and
  \<^verbatim>\<open>t.Before(u)\<close> is \<open>t < u\<close>.\<close>

type_synonym time = int
type_synonym Duration = int

text \<open>The record type numbers of gopacket's \<^verbatim>\<open>layers.DNSType\<close> (those of RFC 1035,
  RFC 3596 and RFC 2782).\<close>

definition DNSTypeA :: DNSType where "DNSTypeA = 1"
definition DNSTypeNS :: DNSType where "DNSTypeNS = 2"
definition DNSTypeCNAME :: DNSType where "DNSTypeCNAME = 5"
definition DNSTypeSOA :: DNSType where "DNSTypeSOA = 6"
definition DNSTypePTR :: DNSType where "DNSTypePTR = 12"
definition DNSTypeMX :: DNSType where "DNSTypeMX = 15"
definition DNSTypeTXT :: DNSType where "DNSTypeTXT = 16"
definition DNSTypeAAAA :: DNSType where "DNSTypeAAAA = 28"
definition DNSTypeSRV :: DNSType where "DNSTypeSRV = 33"

definition DNSOpCodeQuery :: DNSOpCode where "DNSOpCodeQuery = 0"

record DNSQuestion =
  q_Name :: string
  q_Type :: DNSType

record DNSSOA =
  soa_MName :: string
  soa_RName :: string

record DNSSRV =
  srv_Priority :: "16 word"
  srv_Weight :: "16 word"
  srv_Port :: "16 word"
  srv_Name :: string

record DNSMX =
  mx_Preference :: "16 word"
  mx_Name :: string

record DNSResourceRecord =
  rr_Name :: string
  rr_Type :: DNSType
  rr_TTL :: "32 word"
  rr_Data :: string
  rr_IP :: IP
  rr_NS :: string
  rr_CNAME :: string
  rr_PTR :: string
  rr_TXT :: string
  rr_SOA :: DNSSOA
  rr_SRV :: DNSSRV
  rr_MX :: DNSMX

record DNS =
  ID :: "16 word"
  QR :: bool
  OpCode :: DNSOpCode
  ResponseCode :: DNSResponseCode
  Questions :: "DNSQuestion list"
  Answers :: "DNSResourceRecord list"

text \<open>\<^verbatim>\<open>dnsLogEntry\<close>. The two unexported fields \<^verbatim>\<open>encoded\<close> and \<^verbatim>\<open>err\<close> cache the JSON
  encoding; every entry is built with both nil and they are left out.\<close>

record dnsLogEntry =
  Query_ID :: "16 word"
  Response_Code :: int
  Question :: string
  Question_Type :: string
  Answer :: string
  Answer_Type :: string
  TTL :: "32 word"
  Server :: IP
  Client :: IP
  Timestamp :: string

text \<open>A decoded packet is the list of its layers, in the order of \<^verbatim>\<open>packet.Layers()\<close>.
  Only what \<^verbatim>\<open>main.go\<close> reads of a layer is kept: the addresses of an IP layer, the
  parsed message of a DNS layer, the contents of a raw payload layer.\<close>

datatype Layer =
    IPv4 IP IP
  | IPv6 IP IP
  | UDP
  | TCP
  | DNSLayer DNS
  | Payload "byte list"
  | DecodeFailure
  | OtherLayer string

type_synonym Packet = "Layer list"

datatype LayerType =
    LayerTypeIPv4
  | LayerTypeIPv6
  | LayerTypeUDP
  | LayerTypeTCP
  | LayerTypeDNS
  | LayerTypePayload
  | LayerTypeDecodeFailure
  | LayerTypeOther string

datatype EndpointType = EndpointIPv4 | EndpointIPv6

datatype Flow = NewFlow EndpointType IP IP

text \<open>The library functions the program calls, as parameters: the name of a response
  code, the text of an IP address, \<^verbatim>\<open>gopacket.NewPacket\<close> with the DNS decoder as first
  layer (\<open>None\<close> is a nil packet), and the RFC 3339 rendering of a UTC time.\<close>

record library =
  ResponseCode_String :: "DNSResponseCode \<Rightarrow> string"
  IP_String :: "IP \<Rightarrow> string"
  NewPacket_DNS :: "byte list \<Rightarrow> Packet option"
  Format_RFC3339 :: "time \<Rightarrow> string"

record dnsMapEntry =
  entry :: DNS
  inserted :: time

type_synonym conntable = "16 word \<rightharpoonup> dnsMapEntry"

text \<open>The run-time panics of Go that the program can raise: an index or a slice bound
  out of range (with the offending index and the length), and a failed type assertion.\<close>

datatype panic =
    IndexOutOfRange nat nat
  | SliceBoundsOutOfRange nat nat
  | InterfaceConversion

section \<open>Stringification\<close>

text \<open>\<^verbatim>\<open>strconv.Itoa\<close>: the decimal numeral of an integer.\<close>

definition digitChar :: "nat \<Rightarrow> char" where
  "digitChar d = char_of (48 + d)"

fun natDigits :: "nat \<Rightarrow> string" where
  "natDigits n = (if n < 10 then [digitChar n] else natDigits (n div 10) @ [digitChar (n mod 10)])"

declare natDigits.simps [simp del]

definition Itoa :: "int \<Rightarrow> string" where
  "Itoa i = (if i < 0 then CHR ''-'' # natDigits (nat (- i)) else natDigits (nat i))"

definition TypeString :: "DNSType \<Rightarrow> string" where
  "TypeString dnsType =
     (if dnsType = DNSTypeA then ''A''
      else if dnsType = DNSTypeAAAA then ''AAAA''
      else if dnsType = DNSTypeCNAME then ''CNAME''
      else if dnsType = DNSTypeMX then ''MX''
      else if dnsType = DNSTypeNS then ''NS''
      else if dnsType = DNSTypePTR then ''PTR''
      else if dnsType = DNSTypeTXT then ''TXT''
      else if dnsType = DNSTypeSOA then ''SOA''
      else if dnsType = DNSTypeSRV then ''SRV''
      else if dnsType = 255 then ''ANY''
      else Itoa (uint dnsType))"

definition RrString :: "(IP \<Rightarrow> string) \<Rightarrow> DNSResourceRecord \<Rightarrow> string" where
  "RrString ipString rr =
     (if rr_Type rr = DNSTypeA then ipString (rr_IP rr)
      else if rr_Type rr = DNSTypeAAAA then ipString (rr_IP rr)
      else if rr_Type rr = DNSTypeCNAME then rr_CNAME rr
      else if rr_Type rr = DNSTypeMX then mx_Name (rr_MX rr)
      else if rr_Type rr = DNSTypeNS then rr_NS rr
      else if rr_Type rr = DNSTypePTR then rr_PTR rr
      else if rr_Type rr = DNSTypeTXT then rr_TXT rr
      else if rr_Type rr = DNSTypeSOA then soa_RName (rr_SOA rr)
      else if rr_Type rr = DNSTypeSRV then srv_Name (rr_SRV rr)
      else rr_Data rr)"

section \<open>Packet access\<close>

fun LayerType_of :: "Layer \<Rightarrow> LayerType" where
  "LayerType_of (IPv4 s d) = LayerTypeIPv4"
| "LayerType_of (IPv6 s d) = LayerTypeIPv6"
| "LayerType_of UDP = LayerTypeUDP"
| "LayerType_of TCP = LayerTypeTCP"
| "LayerType_of (DNSLayer d) = LayerTypeDNS"
| "LayerType_of (Payload b) = LayerTypePayload"
| "LayerType_of DecodeFailure = LayerTypeDecodeFailure"
| "LayerType_of (OtherLayer n) = LayerTypeOther n"

text \<open>\<^verbatim>\<open>packet.Layer(t)\<close>: the first layer of type \<open>t\<close>, or nil.\<close>

definition Layer_of :: "Packet \<Rightarrow> LayerType \<Rightarrow> Layer option" where
  "Layer_of packet t = find (\<lambda>l. LayerType_of l = t) packet"

definition getIpaddrs :: "Packet \<Rightarrow> IP \<times> IP" where
  "getIpaddrs packet =
     (case Layer_of packet LayerTypeIPv4 of
        Some (IPv4 srcIP dstIP) \<Rightarrow> (srcIP, dstIP)
      | Some _ \<Rightarrow> ([], [])
      | None \<Rightarrow>
          (case Layer_of packet LayerTypeIPv6 of
             Some (IPv6 srcIP dstIP) \<Rightarrow> (srcIP, dstIP)
           | _ \<Rightarrow> ([], [])))"

section \<open>Record building\<close>

text \<open>\<^verbatim>\<open>initLogEntry\<close>. \<open>clock i\<close> is what \<^verbatim>\<open>time.Now()\<close> returns when the entry
  with index \<open>i\<close> is built. \<^verbatim>\<open>question.Questions[0]\<close> panics on an empty question
  section; it is the first field of the literal that can fail.\<close>

fun answerLoop ::
  "library \<Rightarrow> (nat \<Rightarrow> time) \<Rightarrow> IP \<Rightarrow> IP \<Rightarrow> DNS \<Rightarrow> DNS \<Rightarrow>
   DNSResourceRecord list \<Rightarrow> dnsLogEntry list \<Rightarrow> panic + dnsLogEntry list" where
  "answerLoop L clock srcIP dstIP question reply [] retArray = Inr retArray"
| "answerLoop L clock srcIP dstIP question reply (answer # rest) retArray =
     (case Questions question of
        [] \<Rightarrow> Inl (IndexOutOfRange 0 0)
      | q0 # _ \<Rightarrow>
          answerLoop L clock srcIP dstIP question reply rest
            (retArray @
              [\<lparr>Query_ID = ID reply,
                Response_Code = uint (ResponseCode reply),
                Question = q_Name q0,
                Question_Type = TypeString (q_Type q0),
                Answer = RrString (IP_String L) answer,
                Answer_Type = TypeString (rr_Type answer),
                TTL = rr_TTL answer,
                Server = srcIP,
                Client = dstIP,
                Timestamp = Format_RFC3339 L (clock (length retArray))\<rparr>]))"

definition initLogEntry ::
  "library \<Rightarrow> (nat \<Rightarrow> time) \<Rightarrow> IP \<Rightarrow> IP \<Rightarrow> DNS \<Rightarrow> DNS \<Rightarrow> panic + dnsLogEntry list" where
  "initLogEntry L clock srcIP dstIP question reply =
     (if ResponseCode reply \<noteq> 0 then
        (case Questions question of
           [] \<Rightarrow> Inl (IndexOutOfRange 0 0)
         | q0 # _ \<Rightarrow>
             Inr [\<lparr>Query_ID = ID reply,
                   Response_Code = uint (ResponseCode reply),
                   Question = q_Name q0,
                   Question_Type = TypeString (q_Type q0),
                   Answer = ResponseCode_String L (ResponseCode reply),
                   Answer_Type = [],
                   TTL = 0,
                   Server = srcIP,
                   Client = dstIP,
                   Timestamp = Format_RFC3339 L (clock 0)\<rparr>])
      else answerLoop L clock srcIP dstIP question reply (Answers reply) [])"

section \<open>DNS extraction\<close>

text \<open>The loop of \<^verbatim>\<open>getDnsLayer\<close> over the layers of a TCP packet. The slice expression
  \<^verbatim>\<open>layer.LayerContents()[2:]\<close> panics when the contents are shorter than 2 octets;
  \<^verbatim>\<open>dnsP.Layers()[0].(*layers.DNS)\<close> panics when the new packet has no layer or its
  first layer is not a DNS layer.\<close>

fun payloadLoop :: "library \<Rightarrow> Layer list \<Rightarrow> panic + DNS option" where
  "payloadLoop L [] = Inr None"
| "payloadLoop L (Payload contents # rest) =
     (if length contents < 2 then Inl (SliceBoundsOutOfRange 2 (length contents))
      else
        (case NewPacket_DNS L (drop 2 contents) of
           Some dnsP \<Rightarrow>
             (case dnsP of
                [] \<Rightarrow> Inl (IndexOutOfRange 0 0)
              | DNSLayer d # _ \<Rightarrow> Inr (Some d)
              | _ # _ \<Rightarrow> Inl InterfaceConversion)
         | None \<Rightarrow> Inr None))"
| "payloadLoop L (layer # rest) = payloadLoop L rest"

definition getDnsLayer :: "library \<Rightarrow> Packet \<Rightarrow> panic + DNS option" where
  "getDnsLayer L packet =
     (if Layer_of packet LayerTypeUDP \<noteq> None then
        (case Layer_of packet LayerTypeDNS of
           Some (DNSLayer d) \<Rightarrow> Inr (Some d)
         | _ \<Rightarrow> Inr None)
      else if Layer_of packet LayerTypeTCP \<noteq> None then payloadLoop L packet
      else Inr None)"

section \<open>Correlation\<close>

text \<open>One iteration of the loop of \<^verbatim>\<open>handlePacket\<close>: the conntable before, the packet
  received, and the conntable after with the entries sent to the log channel. \<open>clock 0\<close>
  is the time at which a query is stored. The three branches are those of the source:
  a response with an entry for its ID, a response without one, and everything else.\<close>

definition handlePacket_body ::
  "library \<Rightarrow> (nat \<Rightarrow> time) \<Rightarrow> conntable \<Rightarrow> Packet \<Rightarrow> panic + (conntable \<times> dnsLogEntry list)" where
  "handlePacket_body L clock conntable packet =
     (case getIpaddrs packet of (srcIP, dstIP) \<Rightarrow>
      (case getDnsLayer L packet of
         Inl p \<Rightarrow> Inl p
       | Inr None \<Rightarrow> Inr (conntable, [])
       | Inr (Some dns) \<Rightarrow>
           if OpCode dns \<noteq> DNSOpCodeQuery then Inr (conntable, [])
           else
             (case (QR dns, conntable (ID dns)) of
                (True, Some item) \<Rightarrow>
                  (let question = entry item;
                       conntable' = conntable(ID question := None)
                   in case initLogEntry L clock srcIP dstIP question dns of
                        Inl p \<Rightarrow> Inl p
                      | Inr logEntries \<Rightarrow> Inr (conntable', logEntries))
              | (True, None) \<Rightarrow> Inr (conntable, [])
              | (False, _) \<Rightarrow>
                  Inr (conntable(ID dns \<mapsto> \<lparr>entry = dns, inserted = clock 0\<rparr>), []))))"

section \<open>Garbage collection\<close>

text \<open>One wake of \<^verbatim>\<open>cleanDnsCache\<close>. The range loop visits the keys of the map in an
  order Go does not fix: \<open>keys\<close> is that order. A key whose entry is gone when the loop
  reaches it is not visited.\<close>

definition gcVisit :: "time \<Rightarrow> 16 word \<Rightarrow> conntable \<Rightarrow> conntable" where
  "gcVisit cleanupCutoff key conntable =
     (case conntable key of
        None \<Rightarrow> conntable
      | Some item \<Rightarrow>
          if inserted item < cleanupCutoff then conntable(key := None) else conntable)"

definition cleanDnsCache_sweep ::
  "Duration \<Rightarrow> time \<Rightarrow> 16 word list \<Rightarrow> conntable \<Rightarrow> conntable" where
  "cleanDnsCache_sweep maxAge now keys conntable =
     (let cleanupCutoff = now + maxAge in fold (gcVisit cleanupCutoff) keys conntable)"

text \<open>A shard: the packet loop and its collector work on one conntable. The events of a
  shard are the packets it receives and the wakes of its collector, each taken as one
  step (the program runs them in two goroutines without a lock; the interleaving inside
  a step is not modelled).\<close>

datatype event =
    Arrive "nat \<Rightarrow> time" Packet
  | Wake time "16 word list"

fun handlePacket ::
  "library \<Rightarrow> Duration \<Rightarrow> event list \<Rightarrow> conntable \<Rightarrow> dnsLogEntry list \<Rightarrow>
   panic + (conntable \<times> dnsLogEntry list)" where
  "handlePacket L gcAge [] conntable logC = Inr (conntable, logC)"
| "handlePacket L gcAge (Arrive clock packet # rest) conntable logC =
     (case handlePacket_body L clock conntable packet of
        Inl p \<Rightarrow> Inl p
      | Inr (conntable', logEntries) \<Rightarrow> handlePacket L gcAge rest conntable' (logC @ logEntries))"
| "handlePacket L gcAge (Wake now keys # rest) conntable logC =
     handlePacket L gcAge rest (cleanDnsCache_sweep gcAge now keys conntable) logC"

section \<open>Dispatch\<close>

text \<open>\<^verbatim>\<open>packet.NetworkLayer()\<close> and its \<^verbatim>\<open>NetworkFlow()\<close>: the first IP layer, with its
  source and destination as the endpoints of the flow.\<close>

fun NetworkFlow :: "Packet \<Rightarrow> Flow option" where
  "NetworkFlow [] = None"
| "NetworkFlow (IPv4 s d # rest) = Some (NewFlow EndpointIPv4 s d)"
| "NetworkFlow (IPv6 s d # rest) = Some (NewFlow EndpointIPv6 s d)"
| "NetworkFlow (layer # rest) = NetworkFlow rest"

fun Reverse :: "Flow \<Rightarrow> Flow" where
  "Reverse (NewFlow t src dst) = NewFlow t dst src"

text \<open>Modelled from the spec: the flow hash of the packet library
  (\<^verbatim>\<open>Flow.FastHash\<close>, which is not part of \<^verbatim>\<open>main.go\<close>). The specification describes it
  as a hash of the flow's endpoints that is identical regardless of direction (sections
  4.1 and 6), with a 64-bit value. The model is such a hash: each endpoint is hashed
  octet by octet with the 64-bit FNV-1a function, and the two results are combined by
  addition, which does not depend on their order.\<close>

definition fnvBasis :: "64 word" where "fnvBasis = 14695981039346656037"
definition fnvPrime :: "64 word" where "fnvPrime = 1099511628211"

definition fnvHash :: "byte list \<Rightarrow> 64 word" where
  "fnvHash s = fold (\<lambda>b h. (h XOR ucast b) * fnvPrime) s fnvBasis"

fun FastHash :: "Flow \<Rightarrow> 64 word" where
  "FastHash (NewFlow t src dst) = (fnvHash src + fnvHash dst) * fnvPrime"

text \<open>The index into the 8 channels of \<^verbatim>\<open>doCapture\<close>:
  \<^verbatim>\<open>int(net.NetworkFlow().FastHash())&0x7\<close>, where \<^verbatim>\<open>FastHash\<close> returns a \<^verbatim>\<open>uint64\<close>
  and \<^verbatim>\<open>int\<close> has 64 bits. An index outside the array panics; a packet without a
  network layer is sent nowhere.\<close>

definition channelIndex :: "64 word \<Rightarrow> int" where
  "channelIndex h = sint h AND 7"

definition doCapture_dispatch :: "Packet \<Rightarrow> panic + nat option" where
  "doCapture_dispatch packet =
     (case NetworkFlow packet of
        None \<Rightarrow> Inr None
      | Some flow \<Rightarrow>
          (let i = channelIndex (FastHash flow)
           in if 0 \<le> i \<and> i < 8 then Inr (Some (nat i))
              else Inl (IndexOutOfRange (nat i) 8)))"

section \<open>Sample inputs\<close>

text \<open>A stand-in for the library, used to run the program on concrete inputs: dotted
  decimal for a 4-octet address, a name for response code 3, a DNS decoder that rejects
  every input, and the number of nanoseconds as the rendering of a time.\<close>

definition dottedQuad :: "IP \<Rightarrow> string" where
  "dottedQuad ip =
     (case ip of
        [a, b, c, d] \<Rightarrow>
          natDigits (unat a) @ ''.'' @ natDigits (unat b) @ ''.'' @
          natDigits (unat c) @ ''.'' @ natDigits (unat d)
      | _ \<Rightarrow> ''?'')"

definition testLibrary :: library where
  "testLibrary =
     \<lparr>ResponseCode_String = (\<lambda>rc. if rc = 3 then ''Non-Existent Domain'' else Itoa (uint rc)),
      IP_String = dottedQuad,
      NewPacket_DNS = (\<lambda>data. Some [DecodeFailure]),
      Format_RFC3339 = Itoa\<rparr>"

definition testRR :: "DNSType \<Rightarrow> DNSResourceRecord" where
  "testRR t =
     \<lparr>rr_Name = ''example.com'', rr_Type = t, rr_TTL = 3600, rr_Data = ''raw'',
      rr_IP = [93, 184, 216, 34], rr_NS = ''ns.example.com'', rr_CNAME = ''cname.example.com'',
      rr_PTR = ''ptr.example.com'', rr_TXT = ''some text'',
      rr_SOA = \<lparr>soa_MName = ''mname.example.com'', soa_RName = ''rname.example.com''\<rparr>,
      rr_SRV = \<lparr>srv_Priority = 1, srv_Weight = 2, srv_Port = 53, srv_Name = ''srv.example.com''\<rparr>,
      rr_MX = \<lparr>mx_Preference = 10, mx_Name = ''mx.example.com''\<rparr>\<rparr>"

definition testClock :: "nat \<Rightarrow> time" where
  "testClock i = 1000 + int i"

definition clientIP :: IP where "clientIP = [192, 0, 2, 1]"
definition serverIP :: IP where "serverIP = [192, 0, 2, 53]"

text \<open>Messages with transaction ID \<open>0x1234\<close>: a query for a name, a successful response
  with one A record, a response with status 3 and no answer, a query and a successful
  response with empty sections, and a dynamic update (opcode 5).\<close>

definition testQuery :: "string \<Rightarrow> DNS" where
  "testQuery name =
     \<lparr>ID = 0x1234, QR = False, OpCode = DNSOpCodeQuery, ResponseCode = 0,
      Questions = [\<lparr>q_Name = name, q_Type = DNSTypeA\<rparr>], Answers = []\<rparr>"

definition testAnswer :: DNS where
  "testAnswer =
     \<lparr>ID = 0x1234, QR = True, OpCode = DNSOpCodeQuery, ResponseCode = 0,
      Questions = [\<lparr>q_Name = ''example.com'', q_Type = DNSTypeA\<rparr>],
      Answers = [testRR DNSTypeA]\<rparr>"

definition testFailure :: DNS where
  "testFailure =
     \<lparr>ID = 0x1234, QR = True, OpCode = DNSOpCodeQuery, ResponseCode = 3,
      Questions = [\<lparr>q_Name = ''example.com'', q_Type = DNSTypeA\<rparr>], Answers = []\<rparr>"

definition emptyQuery :: DNS where
  "emptyQuery =
     \<lparr>ID = 0x1234, QR = False, OpCode = DNSOpCodeQuery, ResponseCode = 0,
      Questions = [], Answers = []\<rparr>"

definition emptyAnswer :: DNS where
  "emptyAnswer =
     \<lparr>ID = 0x1234, QR = True, OpCode = DNSOpCodeQuery, ResponseCode = 0,
      Questions = [], Answers = []\<rparr>"

definition testUpdate :: DNS where
  "testUpdate =
     \<lparr>ID = 0x1234, QR = False, OpCode = 5, ResponseCode = 0,
      Questions = [\<lparr>q_Name = ''example.com'', q_Type = DNSTypeSOA\<rparr>], Answers = []\<rparr>"

definition udpPacket :: "IP \<Rightarrow> IP \<Rightarrow> DNS \<Rightarrow> Packet" where
  "udpPacket src dst dns = [OtherLayer ''Ethernet'', IPv4 src dst, UDP, DNSLayer dns]"

definition tcpPacket :: "IP \<Rightarrow> IP \<Rightarrow> byte list \<Rightarrow> Packet" where
  "tcpPacket src dst contents = [OtherLayer ''Ethernet'', IPv4 src dst, TCP, Payload contents]"

text \<open>The value of a decimal numeral, to read back what \<^const>\<open>Itoa\<close> writes.\<close>

definition decimalValue :: "string \<Rightarrow> nat" where
  "decimalValue s = foldl (\<lambda>a c. 10 * a + (of_char c - 48)) 0 s"

section \<open>Basic facts\<close>

lemmas DNSType_defs =
  DNSTypeA_def DNSTypeNS_def DNSTypeCNAME_def DNSTypeSOA_def DNSTypePTR_def
  DNSTypeMX_def DNSTypeTXT_def DNSTypeAAAA_def DNSTypeSRV_def

lemma decimalValue_natDigits: "decimalValue (natDigits n) = n"
proof (induction n rule: natDigits.induct)
  case (1 n)
  show ?case
  proof (cases "n < 10")
    case True
    then show ?thesis by (simp add: natDigits.simps decimalValue_def digitChar_def)
  next
    case False
    with 1 have "decimalValue (natDigits (n div 10)) = n div 10" by simp
    moreover have "of_char (digitChar (n mod 10)) - 48 = n mod 10"
      by (simp add: digitChar_def)
    ultimately show ?thesis using False
      by (simp add: natDigits.simps [of n] decimalValue_def)
  qed
qed

lemma gcVisit_apply:
  "gcVisit c key ct k =
     (if k = key
      then (case ct k of None \<Rightarrow> None | Some item \<Rightarrow> if inserted item < c then None else Some item)
      else ct k)"
  by (simp add: gcVisit_def split: option.splits)

lemma fold_gcVisit_apply:
  "fold (gcVisit c) keys ct k =
     (if k \<in> set keys
      then (case ct k of None \<Rightarrow> None | Some item \<Rightarrow> if inserted item < c then None else Some item)
      else ct k)"
proof (induction keys arbitrary: ct)
  case Nil
  then show ?case by simp
next
  case (Cons key keys)
  have "fold (gcVisit c) (key # keys) ct k = fold (gcVisit c) keys (gcVisit c key ct) k"
    by simp
  also have "\<dots> =
     (if k \<in> set keys
      then (case gcVisit c key ct k of None \<Rightarrow> None
            | Some item \<Rightarrow> if inserted item < c then None else Some item)
      else gcVisit c key ct k)"
    by (rule Cons.IH)
  also have "\<dots> =
     (if k \<in> set (key # keys)
      then (case ct k of None \<Rightarrow> None | Some item \<Rightarrow> if inserted item < c then None else Some item)
      else ct k)"
    unfolding gcVisit_apply [of c key ct k] by (simp split: option.splits)
  finally show ?case .
qed

text \<open>The channel index is the low three bits of the hash, whatever its sign bit.\<close>

lemma channelIndex_low_bits: "channelIndex h = uint (h AND 7)"
proof -
  have "sint h AND 7 = take_bit 3 (sint h)"
    by (simp add: take_bit_eq_mask mask_eq_exp_minus_1)
  also have "\<dots> = take_bit 3 (uint h)"
    by (simp add: take_bit_signed_take_bit sint_uint)
  also have "\<dots> = uint (take_bit 3 h)"
    by (simp add: unsigned_take_bit_eq)
  also have "take_bit 3 h = h AND 7"
    by (simp add: take_bit_eq_mask mask_eq_exp_minus_1)
  finally show ?thesis by (simp add: channelIndex_def)
qed

lemma channelIndex_range: "0 \<le> channelIndex h \<and> channelIndex h < 8"
proof -
  have "channelIndex h = take_bit 3 (uint h)"
    by (simp add: channelIndex_low_bits take_bit_eq_mask mask_eq_exp_minus_1 uint_and)
  then show ?thesis
    using take_bit_int_less_exp [of 3 "uint h"] by simp
qed

text \<open>What \<^const>\<open>initLogEntry\<close> returns for a stored query with a question: one entry for a
  failure status, and one entry per answer, in order, for success.\<close>

lemma answerLoop_entries:
  assumes "Questions question = q0 # qs"
  shows "answerLoop L clock srcIP dstIP question reply answers retArray =
     Inr (retArray @ map (\<lambda>i.
            \<lparr>Query_ID = ID reply,
             Response_Code = uint (ResponseCode reply),
             Question = q_Name q0,
             Question_Type = TypeString (q_Type q0),
             Answer = RrString (IP_String L) (answers ! i),
             Answer_Type = TypeString (rr_Type (answers ! i)),
             TTL = rr_TTL (answers ! i),
             Server = srcIP,
             Client = dstIP,
             Timestamp = Format_RFC3339 L (clock (length retArray + i))\<rparr>) [0..<length answers])"
proof (induction answers arbitrary: retArray)
  case Nil
  then show ?case by simp
next
  case (Cons answer rest)
  show ?case
    using assms by (simp add: Cons.IH upt_conv_Cons map_Suc_upt [symmetric] del: upt_Suc)
qed

lemma initLogEntry_failure:
  assumes "Questions question = q0 # qs" and "ResponseCode reply \<noteq> 0"
  shows "initLogEntry L clock srcIP dstIP question reply =
     Inr [\<lparr>Query_ID = ID reply,
           Response_Code = uint (ResponseCode reply),
           Question = q_Name q0,
           Question_Type = TypeString (q_Type q0),
           Answer = ResponseCode_String L (ResponseCode reply),
           Answer_Type = '''',
           TTL = 0,
           Server = srcIP,
           Client = dstIP,
           Timestamp = Format_RFC3339 L (clock 0)\<rparr>]"
  using assms by (simp add: initLogEntry_def)

lemma initLogEntry_success:
  assumes "Questions question = q0 # qs" and "ResponseCode reply = 0"
  shows "initLogEntry L clock srcIP dstIP question reply =
     Inr (map (\<lambda>i.
            \<lparr>Query_ID = ID reply,
             Response_Code = 0,
             Question = q_Name q0,
             Question_Type = TypeString (q_Type q0),
             Answer = RrString (IP_String L) (Answers reply ! i),
             Answer_Type = TypeString (rr_Type (Answers reply ! i)),
             TTL = rr_TTL (Answers reply ! i),
             Server = srcIP,
             Client = dstIP,
             Timestamp = Format_RFC3339 L (clock i)\<rparr>) [0..<length (Answers reply)])"
  using assms answerLoop_entries [OF assms(1), of L clock srcIP dstIP reply "Answers reply" "[]"]
  by (simp add: initLogEntry_def)

text \<open>The example of the specification: a query for \<open>example.com\<close> and its answer with
  one A record.\<close>

lemma example_scenario:
  "initLogEntry testLibrary testClock serverIP clientIP (testQuery ''example.com'') testAnswer =
     Inr [\<lparr>Query_ID = 4660, Response_Code = 0, Question = ''example.com'', Question_Type = ''A'',
           Answer = ''93.184.216.34'', Answer_Type = ''A'', TTL = 3600,
           Server = serverIP, Client = clientIP, Timestamp = ''1000''\<rparr>]"
  by code_simp

text \<open>A UDP packet with a DNS layer yields its message and its IP addresses.\<close>

lemma getDnsLayer_udpPacket: "getDnsLayer L (udpPacket src dst dns) = Inr (Some dns)"
  by (simp add: getDnsLayer_def udpPacket_def Layer_of_def)

lemma getIpaddrs_udpPacket: "getIpaddrs (udpPacket src dst dns) = (src, dst)"
  by (simp add: getIpaddrs_def udpPacket_def Layer_of_def)

text \<open>The packets from which \<^const>\<open>getDnsLayer\<close> extracts nothing, without a panic: a
  UDP packet without a DNS layer, a packet that is neither UDP nor TCP, and a TCP packet
  without a raw payload.\<close>

lemma payloadLoop_no_payload:
  "\<forall>l \<in> set pre. LayerType_of l \<noteq> LayerTypePayload \<Longrightarrow>
   payloadLoop L (pre @ rest) = payloadLoop L rest"
proof (induction pre)
  case Nil
  then show ?case by simp
next
  case (Cons l pre)
  then show ?case by (cases l) simp_all
qed

lemma getDnsLayer_no_message:
  "Layer_of packet LayerTypeUDP \<noteq> None \<Longrightarrow> Layer_of packet LayerTypeDNS = None \<Longrightarrow>
     getDnsLayer L packet = Inr None"
  "Layer_of packet LayerTypeUDP = None \<Longrightarrow> Layer_of packet LayerTypeTCP = None \<Longrightarrow>
     getDnsLayer L packet = Inr None"
  "Layer_of packet LayerTypeUDP = None \<Longrightarrow> Layer_of packet LayerTypePayload = None \<Longrightarrow>
     getDnsLayer L packet = Inr None"
proof -
  show "getDnsLayer L packet = Inr None"
    if "Layer_of packet LayerTypeUDP \<noteq> None" "Layer_of packet LayerTypeDNS = None"
    using that by (simp add: getDnsLayer_def)
  show "getDnsLayer L packet = Inr None"
    if "Layer_of packet LayerTypeUDP = None" "Layer_of packet LayerTypeTCP = None"
    using that by (simp add: getDnsLayer_def)
  show "getDnsLayer L packet = Inr None"
    if "Layer_of packet LayerTypeUDP = None" "Layer_of packet LayerTypePayload = None"
  proof -
    from that(2) have "\<forall>l \<in> set packet. LayerType_of l \<noteq> LayerTypePayload"
      by (simp add: Layer_of_def find_None_iff)
    then have "payloadLoop L (packet @ []) = payloadLoop L []"
      by (rule payloadLoop_no_payload)
    then show ?thesis using that(1) by (simp add: getDnsLayer_def)
  qed
qed

text \<open>A TCP packet with a raw payload of at least 2 octets: the decoder is given the
  payload without its first 2 octets, and nothing else.\<close>

lemma getDnsLayer_tcpPacket:
  "getDnsLayer L (tcpPacket src dst contents) =
     (if length contents < 2 then Inl (SliceBoundsOutOfRange 2 (length contents))
      else
        (case NewPacket_DNS L (drop 2 contents) of
           None \<Rightarrow> Inr None
         | Some [] \<Rightarrow> Inl (IndexOutOfRange 0 0)
         | Some (DNSLayer d # _) \<Rightarrow> Inr (Some d)
         | Some (_ # _) \<Rightarrow> Inl InterfaceConversion))"
  by (simp add: getDnsLayer_def tcpPacket_def Layer_of_def)

section \<open>Type and value rendering\<close>

text \<open>
  Claim C6. \<^const>\<open>TypeString\<close> names the types A, AAAA, CNAME, MX, NS, PTR, TXT, SOA and
  SRV, renders 255 as ANY, and renders every other type as its decimal numeral (reading
  the numeral back gives the type number). \<^const>\<open>RrString\<close> renders an A or AAAA record as
  the text of its address, a CNAME, NS, PTR or TXT record as its name or text, an MX, SOA
  or SRV record as one name only (for SOA the responsible name), and a record of any other
  type as its raw data.
\<close>

theorem TypeString_RrString_table:
  "TypeString DNSTypeA = ''A'' \<and> TypeString DNSTypeAAAA = ''AAAA'' \<and>
   TypeString DNSTypeCNAME = ''CNAME'' \<and> TypeString DNSTypeMX = ''MX'' \<and>
   TypeString DNSTypeNS = ''NS'' \<and> TypeString DNSTypePTR = ''PTR'' \<and>
   TypeString DNSTypeTXT = ''TXT'' \<and> TypeString DNSTypeSOA = ''SOA'' \<and>
   TypeString DNSTypeSRV = ''SRV'' \<and> TypeString 255 = ''ANY'' \<and>
   (t \<notin> {DNSTypeA, DNSTypeAAAA, DNSTypeCNAME, DNSTypeMX, DNSTypeNS, DNSTypePTR,
          DNSTypeTXT, DNSTypeSOA, DNSTypeSRV, 255}
      \<longrightarrow> TypeString t = Itoa (uint t) \<and> decimalValue (TypeString t) = unat t) \<and>
   (rr_Type rr \<in> {DNSTypeA, DNSTypeAAAA} \<longrightarrow> RrString ipString rr = ipString (rr_IP rr)) \<and>
   (rr_Type rr = DNSTypeCNAME \<longrightarrow> RrString ipString rr = rr_CNAME rr) \<and>
   (rr_Type rr = DNSTypeNS \<longrightarrow> RrString ipString rr = rr_NS rr) \<and>
   (rr_Type rr = DNSTypePTR \<longrightarrow> RrString ipString rr = rr_PTR rr) \<and>
   (rr_Type rr = DNSTypeTXT \<longrightarrow> RrString ipString rr = rr_TXT rr) \<and>
   (rr_Type rr = DNSTypeMX \<longrightarrow> RrString ipString rr = mx_Name (rr_MX rr)) \<and>
   (rr_Type rr = DNSTypeSOA \<longrightarrow> RrString ipString rr = soa_RName (rr_SOA rr)) \<and>
   (rr_Type rr = DNSTypeSRV \<longrightarrow> RrString ipString rr = srv_Name (rr_SRV rr)) \<and>
   (rr_Type rr \<notin> {DNSTypeA, DNSTypeAAAA, DNSTypeCNAME, DNSTypeMX, DNSTypeNS, DNSTypePTR,
                  DNSTypeTXT, DNSTypeSOA, DNSTypeSRV}
      \<longrightarrow> RrString ipString rr = rr_Data rr)"
proof -
  have names: "TypeString DNSTypeA = ''A''" "TypeString DNSTypeAAAA = ''AAAA''"
    "TypeString DNSTypeCNAME = ''CNAME''" "TypeString DNSTypeMX = ''MX''"
    "TypeString DNSTypeNS = ''NS''" "TypeString DNSTypePTR = ''PTR''"
    "TypeString DNSTypeTXT = ''TXT''" "TypeString DNSTypeSOA = ''SOA''"
    "TypeString DNSTypeSRV = ''SRV''" "TypeString 255 = ''ANY''"
    by (simp_all add: TypeString_def DNSType_defs)
  have other: "TypeString t = Itoa (uint t) \<and> decimalValue (TypeString t) = unat t"
    if "t \<notin> {DNSTypeA, DNSTypeAAAA, DNSTypeCNAME, DNSTypeMX, DNSTypeNS, DNSTypePTR,
          DNSTypeTXT, DNSTypeSOA, DNSTypeSRV, 255}"
  proof -
    from that have eq: "TypeString t = Itoa (uint t)" by (simp add: TypeString_def)
    have "Itoa (uint t) = natDigits (unat t)" by (simp add: Itoa_def)
    with eq show ?thesis by (simp add: decimalValue_natDigits)
  qed
  have rr: "rr_Type rr \<in> {DNSTypeA, DNSTypeAAAA} \<longrightarrow> RrString ipString rr = ipString (rr_IP rr)"
    "rr_Type rr = DNSTypeCNAME \<longrightarrow> RrString ipString rr = rr_CNAME rr"
    "rr_Type rr = DNSTypeNS \<longrightarrow> RrString ipString rr = rr_NS rr"
    "rr_Type rr = DNSTypePTR \<longrightarrow> RrString ipString rr = rr_PTR rr"
    "rr_Type rr = DNSTypeTXT \<longrightarrow> RrString ipString rr = rr_TXT rr"
    "rr_Type rr = DNSTypeMX \<longrightarrow> RrString ipString rr = mx_Name (rr_MX rr)"
    "rr_Type rr = DNSTypeSOA \<longrightarrow> RrString ipString rr = soa_RName (rr_SOA rr)"
    "rr_Type rr = DNSTypeSRV \<longrightarrow> RrString ipString rr = srv_Name (rr_SRV rr)"
    "rr_Type rr \<notin> {DNSTypeA, DNSTypeAAAA, DNSTypeCNAME, DNSTypeMX, DNSTypeNS, DNSTypePTR,
                  DNSTypeTXT, DNSTypeSOA, DNSTypeSRV}
      \<longrightarrow> RrString ipString rr = rr_Data rr"
    by (simp_all add: RrString_def DNSType_defs)
  from names other rr show ?thesis by blast
qed

theorem TypeString_RrString_table_witness:
  "TypeString 99 = ''99'' \<and> decimalValue (TypeString 99) = 99 \<and>
   RrString dottedQuad (testRR DNSTypeA) = dottedQuad [93, 184, 216, 34] \<and>
   RrString dottedQuad (testRR DNSTypeAAAA) = dottedQuad [93, 184, 216, 34] \<and>
   RrString dottedQuad (testRR DNSTypeCNAME) = ''cname.example.com'' \<and>
   RrString dottedQuad (testRR DNSTypeNS) = ''ns.example.com'' \<and>
   RrString dottedQuad (testRR DNSTypePTR) = ''ptr.example.com'' \<and>
   RrString dottedQuad (testRR DNSTypeTXT) = ''some text'' \<and>
   RrString dottedQuad (testRR DNSTypeMX) = ''mx.example.com'' \<and>
   RrString dottedQuad (testRR DNSTypeSOA) = ''rname.example.com'' \<and>
   RrString dottedQuad (testRR DNSTypeSRV) = ''srv.example.com'' \<and>
   RrString dottedQuad (testRR 99) = ''raw''"
proof -
  have n99: "(99 :: DNSType) \<notin> {DNSTypeA, DNSTypeAAAA, DNSTypeCNAME, DNSTypeMX, DNSTypeNS,
      DNSTypePTR, DNSTypeTXT, DNSTypeSOA, DNSTypeSRV, 255}"
    by (simp add: DNSType_defs)
  have i99: "Itoa (uint (99 :: DNSType)) = ''99''" by code_simp
  have t: "rr_Type (testRR t) = t" for t by (simp add: testRR_def)
  have f: "rr_IP (testRR t) = [93, 184, 216, 34]" "rr_CNAME (testRR t) = ''cname.example.com''"
    "rr_NS (testRR t) = ''ns.example.com''" "rr_PTR (testRR t) = ''ptr.example.com''"
    "rr_TXT (testRR t) = ''some text''" "mx_Name (rr_MX (testRR t)) = ''mx.example.com''"
    "soa_RName (rr_SOA (testRR t)) = ''rname.example.com''"
    "srv_Name (rr_SRV (testRR t)) = ''srv.example.com''" "rr_Data (testRR t) = ''raw''" for t
    by (simp_all add: testRR_def)
  show ?thesis
    using TypeString_RrString_table [of 99 "testRR DNSTypeA" dottedQuad]
      TypeString_RrString_table [of 99 "testRR DNSTypeAAAA" dottedQuad]
      TypeString_RrString_table [of 99 "testRR DNSTypeCNAME" dottedQuad]
      TypeString_RrString_table [of 99 "testRR DNSTypeNS" dottedQuad]
      TypeString_RrString_table [of 99 "testRR DNSTypePTR" dottedQuad]
      TypeString_RrString_table [of 99 "testRR DNSTypeTXT" dottedQuad]
      TypeString_RrString_table [of 99 "testRR DNSTypeMX" dottedQuad]
      TypeString_RrString_table [of 99 "testRR DNSTypeSOA" dottedQuad]
      TypeString_RrString_table [of 99 "testRR DNSTypeSRV" dottedQuad]
      TypeString_RrString_table [of 99 "testRR 99" dottedQuad]
      n99 i99
    by (simp add: t f DNSType_defs)
qed

section \<open>Garbage collection of the conntable\<close>

text \<open>
  Claim C2, as the code has it. A sweep at time \<open>now\<close> removes exactly the entries
  inserted strictly before \<open>now + maxAge\<close> and leaves every other entry as it was,
  the entries inserted exactly at the cutoff included. So, for a negative \<open>maxAge\<close>, a
  query stored at time \<open>T\<close> is absent after any sweep that runs at a time strictly later
  than \<open>T + \<bar>maxAge\<bar>\<close>.
\<close>

theorem cleanDnsCache_sweep_exact:
  assumes "dom conntable \<subseteq> set keys"
  shows "cleanDnsCache_sweep maxAge now keys conntable key =
           (case conntable key of
              None \<Rightarrow> None
            | Some item \<Rightarrow> if inserted item < now + maxAge then None else Some item) \<and>
         (maxAge \<le> 0 \<and> conntable key = Some item \<and> inserted item + \<bar>maxAge\<bar> < now
            \<longrightarrow> cleanDnsCache_sweep maxAge now keys conntable key = None)"
proof -
  have "key \<in> set keys \<or> conntable key = None"
    using assms by (auto simp: dom_def)
  then have "cleanDnsCache_sweep maxAge now keys conntable key =
           (case conntable key of
              None \<Rightarrow> None
            | Some item \<Rightarrow> if inserted item < now + maxAge then None else Some item)"
    by (auto simp: cleanDnsCache_sweep_def fold_gcVisit_apply)
  then show ?thesis by auto
qed

text \<open>With a maximum age of one minute, a sweep one second after the minute has passed
  removes a query stored at time 0 and keeps one stored five seconds later.\<close>

theorem cleanDnsCache_sweep_exact_witness:
  "cleanDnsCache_sweep (- 60000000000) 61000000000 [0x1234, 0x1235]
     [0x1234 \<mapsto> \<lparr>entry = testQuery ''example.com'', inserted = 0\<rparr>,
      0x1235 \<mapsto> \<lparr>entry = testQuery ''example.org'', inserted = 5000000000\<rparr>] 0x1234 = None \<and>
   cleanDnsCache_sweep (- 60000000000) 61000000000 [0x1234, 0x1235]
     [0x1234 \<mapsto> \<lparr>entry = testQuery ''example.com'', inserted = 0\<rparr>,
      0x1235 \<mapsto> \<lparr>entry = testQuery ''example.org'', inserted = 5000000000\<rparr>] 0x1235
     = Some \<lparr>entry = testQuery ''example.org'', inserted = 5000000000\<rparr>"
proof -
  let ?ct = "[0x1234 \<mapsto> \<lparr>entry = testQuery ''example.com'', inserted = 0\<rparr>,
      0x1235 \<mapsto> \<lparr>entry = testQuery ''example.org'', inserted = 5000000000\<rparr>] :: conntable"
  have d: "dom ?ct \<subseteq> set [0x1234, 0x1235]" by simp
  show ?thesis
    using cleanDnsCache_sweep_exact [OF d, of "- 60000000000" 61000000000 "0x1234"
        "\<lparr>entry = testQuery ''example.com'', inserted = 0\<rparr>"]
      cleanDnsCache_sweep_exact [OF d, of "- 60000000000" 61000000000 "0x1235"
        "\<lparr>entry = testQuery ''example.org'', inserted = 5000000000\<rparr>"]
    by simp
qed

text \<open>The claim as the specification words it fails on the boundary: a sweep that runs
  exactly one minute after the query was stored, at a check time equal to
  \<open>T + \<bar>maxAge\<bar>\<close>, leaves the query in the table.\<close>

theorem cleanDnsCache_sweep_boundary_counterexample:
  "(0 :: time) + \<bar>- 60000000000\<bar> \<le> 60000000000 \<and>
   cleanDnsCache_sweep (- 60000000000) 60000000000 [0x1234]
     [0x1234 \<mapsto> \<lparr>entry = testQuery ''example.com'', inserted = 0\<rparr>] 0x1234
     = Some \<lparr>entry = testQuery ''example.com'', inserted = 0\<rparr>"
  by (simp add: cleanDnsCache_sweep_def gcVisit_def)


section \<open>Dispatch to the shards\<close>

text \<open>
  Claim C8. The shard of a packet is a function of its network flow alone: every packet
  with a network layer goes to channel \<open>hash AND 7\<close>, one of the 8 channels, and no
  index is out of range. The flow hash gives a flow and its reverse the same value, so
  a query and its response, whose flow is the reverse of the query's, go to the same
  channel.
\<close>

theorem doCapture_dispatch_symmetric:
  assumes "NetworkFlow query = Some flow"
    and "NetworkFlow response = Some (Reverse flow)"
  shows "FastHash (Reverse flow) = FastHash flow \<and>
         doCapture_dispatch query = Inr (Some (unat (FastHash flow AND 7))) \<and>
         doCapture_dispatch response = doCapture_dispatch query \<and>
         unat (FastHash flow AND 7) < 8"
proof -
  have sym: "FastHash (Reverse flow) = FastHash flow"
    by (cases flow) (simp add: add.commute)
  have idx: "doCapture_dispatch p = Inr (Some (unat (FastHash f AND 7)))"
    if "NetworkFlow p = Some f" for p f
  proof -
    have "0 \<le> channelIndex (FastHash f)" "channelIndex (FastHash f) < 8"
      using channelIndex_range [of "FastHash f"] by simp_all
    moreover have "nat (channelIndex (FastHash f)) = unat (FastHash f AND 7)"
      by (simp only: channelIndex_low_bits unat_eq_nat_uint)
    ultimately show ?thesis
      using that by (simp only: doCapture_dispatch_def Let_def option.case if_True simp_thms)
  qed
  have "unat (FastHash flow AND 7) \<le> unat (7 :: 64 word)"
    by (rule word_and_le1 [THEN word_le_nat_alt [THEN iffD1]])
  then have "unat (FastHash flow AND 7) < 8"
    by simp
  with idx [OF assms(1)] idx [OF assms(2)] sym show ?thesis by simp
qed

theorem doCapture_dispatch_symmetric_witness:
  "doCapture_dispatch (udpPacket clientIP serverIP (testQuery ''example.com'')) = Inr (Some 4) \<and>
   doCapture_dispatch (udpPacket serverIP clientIP testAnswer) = Inr (Some 4)"
proof -
  have q: "NetworkFlow (udpPacket clientIP serverIP (testQuery ''example.com''))
             = Some (NewFlow EndpointIPv4 clientIP serverIP)"
    by (simp add: udpPacket_def)
  have r: "NetworkFlow (udpPacket serverIP clientIP testAnswer)
             = Some (Reverse (NewFlow EndpointIPv4 clientIP serverIP))"
    by (simp add: udpPacket_def)
  have v: "unat (FastHash (NewFlow EndpointIPv4 clientIP serverIP) AND 7) = 4"
    by (simp add: clientIP_def serverIP_def fnvHash_def fnvBasis_def fnvPrime_def)
  show ?thesis
    using doCapture_dispatch_symmetric [OF q r] v by simp
qed

section \<open>Record building from a matched pair\<close>

text \<open>
  Claim C10, as the code has it. \<^const>\<open>initLogEntry\<close> reads the first question of the
  stored query once for a failure status and once for each answer of a successful
  response, without a check. It returns exactly when the stored query has a question, or
  the response is successful and has no answer (the question section is then never read);
  in every other case it panics.
\<close>

theorem initLogEntry_safe_iff:
  "(\<exists>logEntries. initLogEntry L clock srcIP dstIP question reply = Inr logEntries) \<longleftrightarrow>
     (Questions question \<noteq> [] \<or> (ResponseCode reply = 0 \<and> Answers reply = []))"
proof (cases "Questions question")
  case Nil
  show ?thesis
  proof (cases "ResponseCode reply = 0")
    case True
    with Nil show ?thesis
      by (cases "Answers reply") (simp_all add: initLogEntry_def)
  next
    case False
    with Nil show ?thesis by (simp add: initLogEntry_def)
  qed
next
  case (Cons q0 qs)
  show ?thesis
  proof (cases "ResponseCode reply = 0")
    case True
    with Cons initLogEntry_success [OF Cons True] show ?thesis by simp
  next
    case False
    with Cons initLogEntry_failure [OF Cons False] show ?thesis by simp
  qed
qed

theorem initLogEntry_safe_iff_witness:
  "Questions (testQuery ''example.com'') \<noteq> [] \<and>
   (\<exists>logEntries. initLogEntry testLibrary testClock serverIP clientIP (testQuery ''example.com'') testFailure = Inr logEntries) \<and>
   Questions emptyQuery = [] \<and> ResponseCode testFailure \<noteq> 0 \<and>
   (\<nexists>logEntries. initLogEntry testLibrary testClock serverIP clientIP emptyQuery testFailure = Inr logEntries)"
  using initLogEntry_safe_iff [of testLibrary testClock serverIP clientIP "testQuery ''example.com''" testFailure]
    initLogEntry_safe_iff [of testLibrary testClock serverIP clientIP emptyQuery testFailure]
  by (simp add: testQuery_def emptyQuery_def testFailure_def)

text \<open>As claimed, the question section would be read for every matched pair, so that a
  stored query without a question could never be handled. A successful response without
  answers is handled: no entry is built and nothing is read.\<close>

theorem initLogEntry_no_answers_counterexample:
  "Questions emptyQuery = [] \<and>
   initLogEntry testLibrary testClock serverIP clientIP emptyQuery emptyAnswer = Inr []"
  by (simp add: initLogEntry_def emptyQuery_def emptyAnswer_def)

text \<open>
  Claim C4. For a matched pair whose response has a failure status, the specification
  asks for exactly one record, with the name of the status as answer, an empty answer
  type and TTL 0. A query with an empty question section is stored like any other; when
  its response arrives with status 3, \<^verbatim>\<open>question.Questions[0]\<close> panics and no record
  is built.
\<close>

theorem handlePacket_failure_no_question_panics:
  "initLogEntry testLibrary testClock serverIP clientIP emptyQuery testFailure = Inl (IndexOutOfRange 0 0) \<and>
   handlePacket testLibrary (- 60000000000)
     [Arrive testClock (udpPacket clientIP serverIP emptyQuery),
      Arrive testClock (udpPacket serverIP clientIP testFailure)] Map.empty []
     = Inl (IndexOutOfRange 0 0)"
  by (simp add: handlePacket_body_def getDnsLayer_udpPacket getIpaddrs_udpPacket initLogEntry_def
      emptyQuery_def testFailure_def)

text \<open>
  Claim C5. For a matched pair whose response is successful and has \<open>k\<close> answers, the
  specification asks for \<open>k\<close> records. A query with an empty question section is stored
  like any other; when its successful response arrives with one A record,
  \<^verbatim>\<open>question.Questions[0]\<close> panics and no record is built.
\<close>

theorem handlePacket_success_no_question_panics:
  "initLogEntry testLibrary testClock serverIP clientIP emptyQuery testAnswer = Inl (IndexOutOfRange 0 0) \<and>
   handlePacket testLibrary (- 60000000000)
     [Arrive testClock (udpPacket clientIP serverIP emptyQuery),
      Arrive testClock (udpPacket serverIP clientIP testAnswer)] Map.empty []
     = Inl (IndexOutOfRange 0 0)"
  by (simp add: handlePacket_body_def getDnsLayer_udpPacket getIpaddrs_udpPacket initLogEntry_def
      emptyQuery_def testAnswer_def)

section \<open>DNS over TCP\<close>

text \<open>
  Claim C3. The specification asks that a malformed TCP payload, one shorter than 2
  octets included, yields no message and no crash. For a payload of one octet the slice
  expression \<^verbatim>\<open>layer.LayerContents()[2:]\<close> panics, whatever the decoder would do.
\<close>

theorem getDnsLayer_short_tcp_payload_panics:
  "getDnsLayer L (tcpPacket src dst [b]) = Inl (SliceBoundsOutOfRange 2 1) \<and>
   handlePacket_body L clock conntable (tcpPacket src dst [b]) = Inl (SliceBoundsOutOfRange 2 1)"
  by (simp add: handlePacket_body_def getDnsLayer_tcpPacket split: prod.splits)

section \<open>The correlation table\<close>

text \<open>
  Claim C9. The specification asks that a packet yielding no DNS message (a non-DNS or
  malformed TCP payload among them) and a message whose opcode is not Query are skipped:
  conntable unchanged, no record, no error. A TCP packet with a payload of one octet
  yields no DNS message, yet the loop does not skip it: the slice expression in
  \<^verbatim>\<open>getDnsLayer\<close> panics, the loop ends there and the packets that follow are never
  handled.
\<close>

theorem handlePacket_short_tcp_payload_stops:
  "handlePacket L gcAge (Arrive clock (tcpPacket src dst [b]) # rest) conntable logC
     = Inl (SliceBoundsOutOfRange 2 1)"
  by (simp add: handlePacket_body_def getDnsLayer_tcpPacket split: prod.splits)

text \<open>Where \<^const>\<open>getDnsLayer\<close> returns nil, and where the opcode of the message is not
  Query, the iteration does leave the conntable as it was and emits no record.\<close>

lemma handlePacket_body_skips:
  "(getDnsLayer L packet = Inr None \<longrightarrow>
      handlePacket_body L clock conntable packet = Inr (conntable, [])) \<and>
   (getDnsLayer L packet = Inr (Some dns) \<and> OpCode dns \<noteq> DNSOpCodeQuery \<longrightarrow>
      handlePacket_body L clock conntable packet = Inr (conntable, []))"
  by (simp add: handlePacket_body_def split: prod.splits)

lemma handlePacket_body_skips_example:
  "getDnsLayer testLibrary [OtherLayer ''Ethernet'', OtherLayer ''ARP''] = Inr None \<and>
   handlePacket_body testLibrary testClock
     [0x1234 \<mapsto> \<lparr>entry = testQuery ''example.com'', inserted = 0\<rparr>]
     [OtherLayer ''Ethernet'', OtherLayer ''ARP'']
     = Inr ([0x1234 \<mapsto> \<lparr>entry = testQuery ''example.com'', inserted = 0\<rparr>], []) \<and>
   getDnsLayer testLibrary (udpPacket clientIP serverIP testUpdate) = Inr (Some testUpdate) \<and>
   OpCode testUpdate \<noteq> DNSOpCodeQuery \<and>
   handlePacket_body testLibrary testClock
     [0x1234 \<mapsto> \<lparr>entry = testQuery ''example.com'', inserted = 0\<rparr>]
     (udpPacket clientIP serverIP testUpdate)
     = Inr ([0x1234 \<mapsto> \<lparr>entry = testQuery ''example.com'', inserted = 0\<rparr>], [])"
proof -
  have a: "getDnsLayer testLibrary [OtherLayer ''Ethernet'', OtherLayer ''ARP''] = Inr None"
    by (simp add: getDnsLayer_def Layer_of_def)
  have b: "getDnsLayer testLibrary (udpPacket clientIP serverIP testUpdate) = Inr (Some testUpdate)"
    by (rule getDnsLayer_udpPacket)
  have c: "OpCode testUpdate \<noteq> DNSOpCodeQuery"
    by (simp add: testUpdate_def DNSOpCodeQuery_def)
  show ?thesis
    using handlePacket_body_skips [of testLibrary "[OtherLayer ''Ethernet'', OtherLayer ''ARP'']"
        testClock "[0x1234 \<mapsto> \<lparr>entry = testQuery ''example.com'', inserted = 0\<rparr>]" testUpdate]
      handlePacket_body_skips [of testLibrary "udpPacket clientIP serverIP testUpdate"
        testClock "[0x1234 \<mapsto> \<lparr>entry = testQuery ''example.com'', inserted = 0\<rparr>]" testUpdate]
      a b c
    by simp
qed

text \<open>
  Claim C7. A response whose transaction ID has no entry in the conntable is discarded:
  no record is emitted, the conntable is unchanged and there is no panic.
\<close>

theorem handlePacket_body_unmatched_response:
  assumes "getDnsLayer L packet = Inr (Some dns)" and "QR dns" and "conntable (ID dns) = None"
  shows "handlePacket_body L clock conntable packet = Inr (conntable, [])"
  using assms by (simp add: handlePacket_body_def split: prod.splits)

theorem handlePacket_body_unmatched_response_witness:
  "handlePacket_body testLibrary testClock
     [0x4321 \<mapsto> \<lparr>entry = testQuery ''example.com'', inserted = 0\<rparr>]
     (udpPacket serverIP clientIP testAnswer)
     = Inr ([0x4321 \<mapsto> \<lparr>entry = testQuery ''example.com'', inserted = 0\<rparr>], [])"
proof -
  have a: "getDnsLayer testLibrary (udpPacket serverIP clientIP testAnswer) = Inr (Some testAnswer)"
    by (rule getDnsLayer_udpPacket)
  have b: "QR testAnswer" by (simp add: testAnswer_def)
  have c: "[0x4321 \<mapsto> \<lparr>entry = testQuery ''example.com'', inserted = 0\<rparr>] (ID testAnswer) = None"
    by (simp add: testAnswer_def)
  show ?thesis
    using handlePacket_body_unmatched_response
      [where conntable = "[0x4321 \<mapsto> \<lparr>entry = testQuery ''example.com'', inserted = 0\<rparr>]"
         and clock = testClock, OF a b c]
    by simp
qed

text \<open>
  Claim C1. The conntable holds at most one pending query for a transaction ID: it is a
  map, and storing a query replaces the entry of its ID and touches no other key. When
  two queries use the same ID before either is answered, the table holds the second
  only; the next response with that ID is matched against the second query (its records
  are built from it) and removes the entry, and a further response with that ID finds
  nothing.
\<close>

theorem conntable_reused_ID:
  assumes "getDnsLayer L p1 = Inr (Some q1)" and "getDnsLayer L p2 = Inr (Some q2)"
    and "getDnsLayer L p3 = Inr (Some r)"
    and "OpCode q1 = DNSOpCodeQuery" and "\<not> QR q1"
    and "OpCode q2 = DNSOpCodeQuery" and "\<not> QR q2" and "ID q2 = ID q1"
    and "OpCode r = DNSOpCodeQuery" and "QR r" and "ID r = ID q1"
  shows
    "handlePacket_body L c1 conntable p1
       = Inr (conntable(ID q1 \<mapsto> \<lparr>entry = q1, inserted = c1 0\<rparr>), []) \<and>
     handlePacket_body L c2 (conntable(ID q1 \<mapsto> \<lparr>entry = q1, inserted = c1 0\<rparr>)) p2
       = Inr (conntable(ID q1 \<mapsto> \<lparr>entry = q2, inserted = c2 0\<rparr>), []) \<and>
     handlePacket_body L c3 (conntable(ID q1 \<mapsto> \<lparr>entry = q2, inserted = c2 0\<rparr>)) p3
       = (case initLogEntry L c3 (fst (getIpaddrs p3)) (snd (getIpaddrs p3)) q2 r of
            Inl p \<Rightarrow> Inl p
          | Inr logEntries \<Rightarrow> Inr (conntable(ID q1 := None), logEntries)) \<and>
     handlePacket_body L c4 (conntable(ID q1 := None)) p3 = Inr (conntable(ID q1 := None), [])"
proof -
  have s1: "handlePacket_body L c1 conntable p1
       = Inr (conntable(ID q1 \<mapsto> \<lparr>entry = q1, inserted = c1 0\<rparr>), [])"
    using assms(1,4,5) by (simp add: handlePacket_body_def split: prod.splits option.splits)
  have s2: "handlePacket_body L c2 (conntable(ID q1 \<mapsto> \<lparr>entry = q1, inserted = c1 0\<rparr>)) p2
       = Inr (conntable(ID q1 \<mapsto> \<lparr>entry = q2, inserted = c2 0\<rparr>), [])"
    using assms(2,6,7,8) by (simp add: handlePacket_body_def split: prod.splits)
  have s3: "handlePacket_body L c3 (conntable(ID q1 \<mapsto> \<lparr>entry = q2, inserted = c2 0\<rparr>)) p3
       = (case initLogEntry L c3 (fst (getIpaddrs p3)) (snd (getIpaddrs p3)) q2 r of
            Inl p \<Rightarrow> Inl p
          | Inr logEntries \<Rightarrow> Inr (conntable(ID q1 := None), logEntries))"
    using assms(3,8,9,10,11)
    by (simp add: handlePacket_body_def Let_def split: prod.splits sum.splits)
  have s4: "handlePacket_body L c4 (conntable(ID q1 := None)) p3 = Inr (conntable(ID q1 := None), [])"
    using assms(3,9,10,11) by (simp add: handlePacket_body_def split: prod.splits)
  from s1 s2 s3 s4 show ?thesis by blast
qed

theorem conntable_reused_ID_witness:
  "handlePacket_body testLibrary testClock Map.empty
       (udpPacket clientIP serverIP (testQuery ''first.example''))
     = Inr ([0x1234 \<mapsto> \<lparr>entry = testQuery ''first.example'', inserted = 1000\<rparr>], []) \<and>
   handlePacket_body testLibrary testClock
       [0x1234 \<mapsto> \<lparr>entry = testQuery ''first.example'', inserted = 1000\<rparr>]
       (udpPacket clientIP serverIP (testQuery ''second.example''))
     = Inr ([0x1234 \<mapsto> \<lparr>entry = testQuery ''second.example'', inserted = 1000\<rparr>], []) \<and>
   handlePacket_body testLibrary testClock
       [0x1234 \<mapsto> \<lparr>entry = testQuery ''second.example'', inserted = 1000\<rparr>]
       (udpPacket serverIP clientIP testAnswer)
     = Inr (Map.empty,
            [\<lparr>Query_ID = 0x1234, Response_Code = 0, Question = ''second.example'',
              Question_Type = ''A'', Answer = ''93.184.216.34'', Answer_Type = ''A'', TTL = 3600,
              Server = serverIP, Client = clientIP, Timestamp = ''1000''\<rparr>]) \<and>
   handlePacket_body testLibrary testClock Map.empty (udpPacket serverIP clientIP testAnswer)
     = Inr (Map.empty, [])"
proof -
  have g: "getDnsLayer testLibrary (udpPacket clientIP serverIP (testQuery ''first.example''))
             = Inr (Some (testQuery ''first.example''))"
    "getDnsLayer testLibrary (udpPacket clientIP serverIP (testQuery ''second.example''))
             = Inr (Some (testQuery ''second.example''))"
    "getDnsLayer testLibrary (udpPacket serverIP clientIP testAnswer) = Inr (Some testAnswer)"
    by (rule getDnsLayer_udpPacket)+
  have q: "OpCode (testQuery n) = DNSOpCodeQuery" "\<not> QR (testQuery n)" "ID (testQuery n) = 0x1234" for n
    by (simp_all add: testQuery_def)
  have r: "OpCode testAnswer = DNSOpCodeQuery" "QR testAnswer" "ID testAnswer = 0x1234"
    by (simp_all add: testAnswer_def)
  have i: "ID (testQuery ''second.example'') = ID (testQuery ''first.example'')"
          "ID testAnswer = ID (testQuery ''first.example'')"
    by (simp_all add: q r)
  have e: "initLogEntry testLibrary testClock serverIP clientIP (testQuery ''second.example'') testAnswer
     = Inr [\<lparr>Query_ID = 0x1234, Response_Code = 0, Question = ''second.example'',
              Question_Type = ''A'', Answer = ''93.184.216.34'', Answer_Type = ''A'', TTL = 3600,
              Server = serverIP, Client = clientIP, Timestamp = ''1000''\<rparr>]"
    by code_simp
  have c: "testClock 0 = 1000" by (simp add: testClock_def)
  show ?thesis
    using conntable_reused_ID [where conntable = Map.empty and ?c1.0 = testClock and ?c2.0 = testClock
        and ?c3.0 = testClock and ?c4.0 = testClock,
        OF g(1) g(2) g(3) q(1) q(2) q(1) q(2) i(1) r(1) r(2) i(2)]
    by (simp add: q c e getIpaddrs_udpPacket)
qed

end
